theory Spec2Isabelle
  imports Main
begin

section \<open>Process model\<close>

text \<open>
  The functions of \<^verbatim>\<open>services/google.go\<close> read the process environment, the file
  system, the terminal and the network, and they end the process with \<^verbatim>\<open>log.Fatal\<close>.
  Each of them is embedded as a function that returns the trace of the effects it
  performed together with its result; a result is either \<open>Fatal msg\<close> (the process was
  ended by \<^verbatim>\<open>log.Fatal\<close>/\<^verbatim>\<open>log.Fatalf\<close> with that message) or \<open>Done v\<close>. A Go
  \<^verbatim>\<open>error\<close> value is represented by its text. Banner lines written with
  \<^verbatim>\<open>fmt.Println\<close> carry no control flow and are not recorded in traces; the
  authorization URL shown to the operator is.
\<close>

type_synonym go_error = string

datatype 'a outcome = Fatal string | Done 'a

text \<open>Go's \<^verbatim>\<open>(value, err)\<close> pair: \<open>Inl\<close> is a non-nil error.\<close>

type_synonym 'a go_result = "go_error + 'a"

text \<open>
  Modelled from the spec: the declaration of \<^verbatim>\<open>oauth2.Token\<close> belongs to a library;
  the spec's data model gives its four fields (access value, token type, refresh value,
  expiry). The expiry is a Unix timestamp, \<open>0\<close> when absent.
\<close>

record token =
  AccessToken :: string
  TokenType :: string
  RefreshToken :: string
  Expiry :: int

text \<open>
  Modelled from the spec: \<^verbatim>\<open>oauth2.Config\<close> is a library type; the only field the
  source assigns is \<^verbatim>\<open>RedirectURL\<close>.
\<close>

record oauth_config =
  ClientID :: string
  ClientSecret :: string
  RedirectURL :: string

text \<open>What the select statement of the callback flow received.\<close>

datatype select_event =
    CodeReceived string
  | ErrorReceived go_error
  | TimerFired

datatype event =
    LogPrintln string
  | OsOpen string
  | OsOpenFile string
  | FileWrite string string
  | PrintAuthURL string
  | Scan
  | HandleFunc string
  | ListenAndServe string
  | Sleep nat
  | SelectResolved nat select_event
  | Shutdown nat
  | Exchange string
  | ConfigClient token

type_synonym trace = "event list"

text \<open>The effects that touch the file system.\<close>

fun file_access :: "event \<Rightarrow> bool" where
  "file_access (OsOpen _) = True"
| "file_access (OsOpenFile _) = True"
| "file_access (FileWrite _ _) = True"
| "file_access _ = False"

text \<open>UTF-8 bytes of the marks used in the source's messages.\<close>

definition cross_mark :: string where
  "cross_mark = [CHR 0xE2, CHR 0x9D, CHR 0x8C]"

definition check_mark :: string where
  "check_mark = [CHR 0xE2, CHR 0x9C, CHR 0x85]"

section \<open>Credential source resolver\<close>

record AuthConfig =
  CredentialsPath :: string
  ClientSecretsPath :: string
  UseServiceAccount :: bool

definition no_source_message :: string where
  "no_source_message =
     ''Either GOOGLE_APPLICATION_CREDENTIALS or GOOGLE_CLIENT_SECRETS is required for authentication''"

definition both_sources_notice :: string where
  "both_sources_notice =
     ''Both service account and client secrets provided, using service account authentication''"

text \<open>
  \<^verbatim>\<open>loadGoogleCredentials\<close>; the argument is \<^verbatim>\<open>os.Getenv\<close>, which yields the empty
  string for an unset variable.
\<close>

definition loadGoogleCredentials :: "(string \<Rightarrow> string) \<Rightarrow> trace \<times> AuthConfig outcome" where
  "loadGoogleCredentials env =
     (let credentialsPath = env ''GOOGLE_APPLICATION_CREDENTIALS'';
          clientSecretsPath = env ''GOOGLE_CLIENT_SECRETS'';
          hasServiceAccount = (credentialsPath \<noteq> []);
          hasClientSecrets = (clientSecretsPath \<noteq> [])
      in if \<not> hasServiceAccount \<and> \<not> hasClientSecrets then ([], Fatal no_source_message)
         else ((if hasServiceAccount \<and> hasClientSecrets then [LogPrintln both_sources_notice] else []),
               Done \<lparr>CredentialsPath = credentialsPath,
                     ClientSecretsPath = clientSecretsPath,
                     UseServiceAccount = hasServiceAccount\<rparr>))"

text \<open>An environment given by a list of bindings, as a process would inherit it.\<close>

definition env_of :: "(string \<times> string) list \<Rightarrow> string \<Rightarrow> string" where
  "env_of bs k = (case map_of bs k of None \<Rightarrow> [] | Some v \<Rightarrow> v)"

section \<open>Token store\<close>

text \<open>
  The file system as the token store sees it. \<open>files\<close> gives the bytes of every file
  that \<^verbatim>\<open>os.Open\<close> can open and read; \<open>open_err\<close> is the error \<^verbatim>\<open>os.Open\<close>
  returns for the others. \<open>create_err\<close> is the error, if any, of
  \<^verbatim>\<open>os.OpenFile(path, O_RDWR|O_CREATE|O_TRUNC, 0600)\<close>; \<open>write_err\<close> is the error, if
  any, of writing to the opened file, with the number of bytes that reached it.
\<close>

record filesys =
  files :: "string \<rightharpoonup> string"
  open_err :: "string \<Rightarrow> go_error"
  create_err :: "string \<Rightarrow> go_error option"
  write_err :: "string \<Rightarrow> (go_error \<times> nat) option"

text \<open>
  \<^verbatim>\<open>encoding/json\<close> applied to \<^verbatim>\<open>oauth2.Token\<close> is library code: the encoder and the
  decoder are parameters.
\<close>

record json_codec =
  json_encode :: "token \<Rightarrow> string go_result"
  json_decode :: "string \<Rightarrow> token go_result"

text \<open>
  \<^verbatim>\<open>tokenFromFile\<close>. A failed read of the opened file surfaces in Go as the decoder's
  error; here the bytes of a readable file are always delivered to the decoder. On a
  decoding error the source returns a token together with the error; its only caller
  discards the token, so the error alone is kept.
\<close>

definition tokenFromFile :: "json_codec \<Rightarrow> filesys \<Rightarrow> string \<Rightarrow> trace \<times> token go_result" where
  "tokenFromFile codec fs file =
     (case files fs file of
        None \<Rightarrow> ([OsOpen file], Inl (open_err fs file))
      | Some bytes \<Rightarrow> ([OsOpen file], json_decode codec bytes))"

definition cache_failed_message :: "go_error \<Rightarrow> string" where
  "cache_failed_message err = cross_mark @ '' Unable to cache oauth token: '' @ err"

definition encode_failed_message :: "go_error \<Rightarrow> string" where
  "encode_failed_message err = cross_mark @ '' Unable to encode token to file: '' @ err"

text \<open>
  \<^verbatim>\<open>saveToken\<close>. Opening truncates the file before anything is encoded;
  \<^verbatim>\<open>Encoder.Encode\<close> marshals first and writes only a complete encoding, and returns
  the write's error as its own.
\<close>

definition saveToken :: "json_codec \<Rightarrow> filesys \<Rightarrow> string \<Rightarrow> token \<Rightarrow> trace \<times> filesys \<times> unit outcome" where
  "saveToken codec fs path tok =
     (case create_err fs path of
        Some err \<Rightarrow> ([OsOpenFile path], fs, Fatal (cache_failed_message err))
      | None \<Rightarrow>
          (let fs1 = fs\<lparr>files := (files fs)(path \<mapsto> [])\<rparr> in
           case json_encode codec tok of
             Inl err \<Rightarrow> ([OsOpenFile path], fs1, Fatal (encode_failed_message err))
           | Inr bytes \<Rightarrow>
               (case write_err fs path of
                  Some (err, n) \<Rightarrow>
                    ([OsOpenFile path, FileWrite path (take n bytes)],
                     fs\<lparr>files := (files fs)(path \<mapsto> take n bytes)\<rparr>,
                     Fatal (encode_failed_message err))
                | None \<Rightarrow>
                    ([OsOpenFile path, FileWrite path bytes],
                     fs\<lparr>files := (files fs)(path \<mapsto> bytes)\<rparr>,
                     Done ()))))"

section \<open>Interactive authorization\<close>

text \<open>
  Everything outside the process that an authorization attempt depends on: the
  environment variables, the clock, the operator's input (\<open>scan n\<close> is the result of the
  \<open>n\<close>-th \<^verbatim>\<open>fmt.Scan\<close>), the OAuth library (\<^verbatim>\<open>AuthCodeURL\<close> and \<^verbatim>\<open>Exchange\<close>), the
  JSON codec, what reaches the callback server, and the runtime's random choice among
  the ready cases of a select.
\<close>

type_synonym query = "(string \<times> string) list"

datatype incoming = Request query | ServeError go_error

record world =
  getenv :: "string \<Rightarrow> string"
  unix_now :: int
  scan :: "nat \<Rightarrow> string go_result"
  auth_code_url :: "oauth_config \<Rightarrow> string \<Rightarrow> string"
  exchange :: "oauth_config \<Rightarrow> string \<Rightarrow> token go_result"
  codec :: json_codec
  arrivals :: "(nat \<times> incoming) list"
  select_rand :: nat

subsection \<open>Manual-code flow\<close>

text \<open>ASCII white space; bytes outside ASCII are kept by \<open>TrimSpace\<close> here.\<close>

definition is_space :: "char \<Rightarrow> bool" where
  "is_space c \<longleftrightarrow> c \<in> {CHR '' '', CHR 0x09, CHR 0x0A, CHR 0x0B, CHR 0x0C, CHR 0x0D}"

definition TrimSpace :: "string \<Rightarrow> string" where
  "TrimSpace s = rev (dropWhile is_space (rev (dropWhile is_space s)))"

definition HasPrefix :: "string \<Rightarrow> string \<Rightarrow> bool" where
  "HasPrefix s p \<longleftrightarrow> take (length p) s = p"

text \<open>\<^verbatim>\<open>strings.ToLower\<close> on ASCII letters; the source compares its result with \<^verbatim>\<open>"y"\<close>.\<close>

definition lower_byte :: "char \<Rightarrow> char" where
  "lower_byte c =
     (let n = (of_char c :: nat) in if 65 \<le> n \<and> n \<le> 90 then char_of (n + 32) else c)"

definition ToLower :: "string \<Rightarrow> string" where
  "ToLower s = map lower_byte s"

definition read_failed_message :: "go_error \<Rightarrow> string" where
  "read_failed_message err = cross_mark @ '' Unable to read authorization code: '' @ err"

definition empty_code_message :: string where
  "empty_code_message = cross_mark @ '' Authorization code cannot be empty''"

definition cancelled_message :: string where
  "cancelled_message = cross_mark @ '' Authorization cancelled by user''"

definition exchange_failed_message :: "go_error \<Rightarrow> string" where
  "exchange_failed_message err = cross_mark @ '' Unable to retrieve token from web: '' @ err"

text \<open>The exchange that ends both flows.\<close>

definition exchange_code :: "world \<Rightarrow> oauth_config \<Rightarrow> string \<Rightarrow> trace \<times> token outcome" where
  "exchange_code w config code =
     (case exchange w config code of
        Inl err \<Rightarrow> ([Exchange code], Fatal (exchange_failed_message err))
      | Inr tok \<Rightarrow> ([Exchange code], Done tok))"

text \<open>The soft check of the code's prefix, with the confirmation it asks for.\<close>

definition confirm_code :: "world \<Rightarrow> string \<Rightarrow> trace \<times> unit outcome" where
  "confirm_code w authCode =
     (if \<not> HasPrefix authCode ''4/'' then
        (case scan w 1 of
           Inl err \<Rightarrow> ([Scan], Fatal cancelled_message)
         | Inr confirm \<Rightarrow>
             if ToLower confirm \<noteq> ''y'' then ([Scan], Fatal cancelled_message)
             else ([Scan], Done ()))
      else ([], Done ()))"

definition getTokenFromWeb :: "world \<Rightarrow> oauth_config \<Rightarrow> trace \<times> token outcome" where
  "getTokenFromWeb w config =
     (let authURL = auth_code_url w config ''state-token'' in
      case scan w 0 of
        Inl err \<Rightarrow> ([PrintAuthURL authURL, Scan], Fatal (read_failed_message err))
      | Inr input \<Rightarrow>
          (let authCode = TrimSpace input in
           if authCode = [] then ([PrintAuthURL authURL, Scan], Fatal empty_code_message)
           else
             (case confirm_code w authCode of
                (tr1, Fatal msg) \<Rightarrow> ([PrintAuthURL authURL, Scan] @ tr1, Fatal msg)
              | (tr1, Done _) \<Rightarrow>
                  (case exchange_code w config authCode of
                     (tr2, r) \<Rightarrow> ([PrintAuthURL authURL, Scan] @ tr1 @ tr2, r)))))"

subsection \<open>Callback-server flow\<close>

text \<open>\<^verbatim>\<open>fmt.Sprintf("%d", n)\<close>.\<close>

fun dec_nat :: "nat \<Rightarrow> string" where
  "dec_nat n =
     (if n < 10 then [''0123456789'' ! n] else dec_nat (n div 10) @ [''0123456789'' ! (n mod 10)])"

declare dec_nat.simps [simp del]

definition fmt_d :: "int \<Rightarrow> string" where
  "fmt_d i = (if i < 0 then CHR ''-'' # dec_nat (nat (- i)) else dec_nat (nat i))"

definition callback_port :: "(string \<Rightarrow> string) \<Rightarrow> string" where
  "callback_port env =
     (let callbackPort = env ''OAUTH_CALLBACK_PORT'' in
      if callbackPort = [] then ''8080'' else callbackPort)"

definition callback_url :: "string \<Rightarrow> string" where
  "callback_url callbackPort = ''http://localhost:'' @ callbackPort @ ''/oauth/callback''"

text \<open>The state of an attempt: \<^verbatim>\<open>fmt.Sprintf("state-%d", time.Now().Unix())\<close>.\<close>

definition callback_state :: "int \<Rightarrow> string" where
  "callback_state now = ''state-'' @ fmt_d now"

text \<open>The \<^verbatim>\<open>Addr\<close> of the \<^verbatim>\<open>http.Server\<close>.\<close>

definition server_addr :: "string \<Rightarrow> string" where
  "server_addr callbackPort = '':'' @ callbackPort"

definition callback_route :: string where
  "callback_route = ''/oauth/callback''"

text \<open>\<^verbatim>\<open>r.URL.Query().Get(key)\<close>: the first value of the key, the empty string without one.\<close>

definition query_get :: "query \<Rightarrow> string \<Rightarrow> string" where
  "query_get q k = (case map_of q k of None \<Rightarrow> [] | Some v \<Rightarrow> v)"

record http_response =
  status :: nat
  content_type :: string
  body :: string

datatype signal = CodeSignal string | ErrorSignal go_error

definition success_page :: string where
  \<open>success_page = concat (map (\<lambda>l. CHR 0x0A # l)
     [''<!DOCTYPE html>'',
      ''<html>'',
      ''<head>'',
      ''    <title>Authorization Successful</title>'',
      ''    <style>'',
      ''        body { font-family: Arial, sans-serif; text-align: center; padding: 50px; }'',
      ''        .success { color: #4CAF50; font-size: 24px; }'',
      ''        .message { color: #666; margin-top: 20px; }'',
      ''    </style>'',
      ''</head>'',
      ''<body>'',
      ''    <div class="success">'' @ check_mark @ '' Authorization Successful!</div>'',
      ''    <div class="message">You can now close this window and return to your terminal.</div>'',
      ''    <div class="message">The server will continue starting up...</div>'',
      ''</body>'',
      ''</html>''])\<close>

text \<open>
  The handler registered for the callback route, for the attempt's state: what it
  writes to the browser (\<open>None\<close> when it writes nothing) and what it sends on
  \<^verbatim>\<open>errorChan\<close> or \<^verbatim>\<open>codeChan\<close>.
\<close>

definition handler :: "string \<Rightarrow> query \<Rightarrow> http_response option \<times> signal" where
  "handler state q =
     (if query_get q ''state'' \<noteq> state then (None, ErrorSignal ''invalid state parameter'')
      else
        (let code = query_get q ''code'' in
         if code = [] then (None, ErrorSignal ''authorization code not found'')
         else (Some \<lparr>status = 200, content_type = ''text/html'', body = success_page\<rparr>,
               CodeSignal code)))"

text \<open>
  What is sent on the two channels, in order of arrival, with the time of each send in
  nanoseconds after the select statement is entered. The serving goroutine sends its
  error and ends; nothing is handled after that.
\<close>

fun signals :: "string \<Rightarrow> (nat \<times> incoming) list \<Rightarrow> (nat \<times> signal) list" where
  "signals state [] = []"
| "signals state ((t, ServeError err) # rest) = [(t, ErrorSignal (''callback server error: '' @ err))]"
| "signals state ((t, Request q) # rest) = (t, snd (handler state q)) # signals state rest"

text \<open>The first value of each channel: both are buffered with capacity one.\<close>

fun first_code :: "(nat \<times> signal) list \<Rightarrow> (nat \<times> string) option" where
  "first_code [] = None"
| "first_code ((t, CodeSignal c) # rest) = Some (t, c)"
| "first_code ((t, ErrorSignal e) # rest) = first_code rest"

fun first_error :: "(nat \<times> signal) list \<Rightarrow> (nat \<times> go_error) option" where
  "first_error [] = None"
| "first_error ((t, ErrorSignal e) # rest) = Some (t, e)"
| "first_error ((t, CodeSignal c) # rest) = first_error rest"

text \<open>\<^verbatim>\<open>time.Second\<close> and \<^verbatim>\<open>time.Minute\<close>, in nanoseconds.\<close>

definition Second :: nat where
  "Second = 1000000000"

definition Minute :: nat where
  "Minute = 60 * Second"

definition wait_timeout :: nat where
  "wait_timeout = 5 * Minute"

definition shutdown_grace :: nat where
  "shutdown_grace = 5 * Second"

text \<open>
  The select statement over \<^verbatim>\<open>codeChan\<close>, \<^verbatim>\<open>errorChan\<close> and
  \<^verbatim>\<open>time.After(5 * time.Minute)\<close>: the cases that are ready at the earliest moment any
  case is ready, and the runtime's choice among them.
\<close>

definition select_cases :: "(nat \<times> string) option \<Rightarrow> (nat \<times> go_error) option \<Rightarrow> (nat \<times> select_event) list" where
  "select_cases c e =
     (case c of None \<Rightarrow> [] | Some (t, code) \<Rightarrow> [(t, CodeReceived code)]) @
     (case e of None \<Rightarrow> [] | Some (t, err) \<Rightarrow> [(t, ErrorReceived err)]) @
     [(wait_timeout, TimerFired)]"

definition select_ready :: "(nat \<times> string) option \<Rightarrow> (nat \<times> go_error) option \<Rightarrow> (nat \<times> select_event) list" where
  "select_ready c e =
     (let cases = select_cases c e;
          earliest = fold min (map fst cases) wait_timeout
      in filter (\<lambda>(t, ev). t = earliest) cases)"

definition select_wait :: "nat \<Rightarrow> (nat \<times> string) option \<Rightarrow> (nat \<times> go_error) option \<Rightarrow> nat \<times> select_event" where
  "select_wait rand c e = (let ready = select_ready c e in ready ! (rand mod length ready))"

definition callback_error_message :: "go_error \<Rightarrow> string" where
  "callback_error_message err = cross_mark @ '' OAuth callback error: '' @ err"

definition timed_out_message :: string where
  "timed_out_message = cross_mark @ '' OAuth authorization timed out after 5 minutes''"

text \<open>What the flow does before it waits.\<close>

definition callback_setup :: "world \<Rightarrow> oauth_config \<Rightarrow> trace" where
  "callback_setup w config =
     (let callbackPort = callback_port (getenv w);
          state = callback_state (unix_now w)
      in [HandleFunc callback_route,
          ListenAndServe (server_addr callbackPort),
          Sleep (1 * Second),
          PrintAuthURL (auth_code_url w (config\<lparr>RedirectURL := callback_url callbackPort\<rparr>) state)])"

text \<open>The channel traffic of an attempt, and what its select statement receives.\<close>

definition sent_signals :: "world \<Rightarrow> (nat \<times> signal) list" where
  "sent_signals w = signals (callback_state (unix_now w)) (arrivals w)"

definition callback_select :: "world \<Rightarrow> nat \<times> select_event" where
  "callback_select w =
     select_wait (select_rand w) (first_code (sent_signals w)) (first_error (sent_signals w))"

text \<open>
  \<^verbatim>\<open>getTokenFromWebWithCallback\<close>; it assigns \<^verbatim>\<open>config.RedirectURL\<close> through the
  pointer it is given, so the configuration is returned as well. The route is registered
  on the default mux of the process, where a second registration panics: this is the
  first attempt of a process.
\<close>

definition getTokenFromWebWithCallback :: "world \<Rightarrow> oauth_config \<Rightarrow> trace \<times> oauth_config \<times> token outcome" where
  "getTokenFromWebWithCallback w config =
     (let callbackPort = callback_port (getenv w);
          config1 = config\<lparr>RedirectURL := callback_url callbackPort\<rparr>;
          setup = callback_setup w config
      in case callback_select w of
           (t, CodeReceived code) \<Rightarrow>
             (case exchange_code w config1 code of
                (tr, r) \<Rightarrow>
                  (setup @ [SelectResolved t (CodeReceived code), Shutdown shutdown_grace] @ tr, config1, r))
         | (t, ErrorReceived err) \<Rightarrow>
             (setup @ [SelectResolved t (ErrorReceived err), Shutdown shutdown_grace], config1,
              Fatal (callback_error_message err))
         | (t, TimerFired) \<Rightarrow>
             (setup @ [SelectResolved t TimerFired, Shutdown shutdown_grace], config1,
              Fatal timed_out_message))"

section \<open>Authenticated client\<close>

text \<open>The client \<^verbatim>\<open>config.Client(ctx, token)\<close> builds.\<close>

datatype http_client = Client oauth_config token

definition token_path :: "(string \<Rightarrow> string) \<Rightarrow> string" where
  "token_path env =
     (let tokenPath = env ''GOOGLE_TOKEN_PATH'' in
      if tokenPath = [] then ''token.json'' else tokenPath)"

text \<open>The branch of \<^verbatim>\<open>getHTTPClient\<close> that chooses between the two flows.\<close>

definition authorize :: "world \<Rightarrow> oauth_config \<Rightarrow> trace \<times> oauth_config \<times> token outcome" where
  "authorize w config =
     (let useCallback = getenv w ''OAUTH_USE_CALLBACK'' in
      if useCallback = ''true'' \<or> useCallback = ''1'' then getTokenFromWebWithCallback w config
      else (case getTokenFromWeb w config of (tr, r) \<Rightarrow> (tr, config, r)))"

definition getHTTPClient :: "world \<Rightarrow> filesys \<Rightarrow> oauth_config \<Rightarrow> trace \<times> filesys \<times> http_client outcome" where
  "getHTTPClient w fs config =
     (let tokenPath = token_path (getenv w) in
      case tokenFromFile (codec w) fs tokenPath of
        (tr0, Inr tok) \<Rightarrow> (tr0 @ [ConfigClient tok], fs, Done (Client config tok))
      | (tr0, Inl err) \<Rightarrow>
          (case authorize w config of
             (tr1, config1, Fatal msg) \<Rightarrow> (tr0 @ tr1, fs, Fatal msg)
           | (tr1, config1, Done tok) \<Rightarrow>
               (case saveToken (codec w) fs tokenPath tok of
                  (tr2, fs2, Fatal msg) \<Rightarrow> (tr0 @ tr1 @ tr2, fs2, Fatal msg)
                | (tr2, fs2, Done _) \<Rightarrow>
                    (tr0 @ tr1 @ tr2 @ [ConfigClient tok], fs2, Done (Client config1 tok)))))"

text \<open>The effects that reach the operator or the network.\<close>

fun interactive :: "event \<Rightarrow> bool" where
  "interactive (PrintAuthURL _) = True"
| "interactive Scan = True"
| "interactive (HandleFunc _) = True"
| "interactive (ListenAndServe _) = True"
| "interactive (Sleep _) = True"
| "interactive (SelectResolved _ _) = True"
| "interactive (Shutdown _) = True"
| "interactive (Exchange _) = True"
| "interactive _ = False"

fun is_shutdown :: "event \<Rightarrow> bool" where
  "is_shutdown (Shutdown _) = True"
| "is_shutdown _ = False"

fun is_client :: "event \<Rightarrow> bool" where
  "is_client (ConfigClient _) = True"
| "is_client _ = False"

section \<open>A concrete installation\<close>

text \<open>
  One token as the encoder writes it, a file system without a token file, and an
  operator who authorizes in the browser two seconds after the flow starts to wait.
\<close>

definition sample_token :: token where
  "sample_token =
     \<lparr>AccessToken = ''ya29.a0'', TokenType = ''Bearer'', RefreshToken = ''1//0g'', Expiry = 1700003600\<rparr>"

definition sample_json :: string where
  \<open>sample_json =
     ''{"access_token":"ya29.a0","token_type":"Bearer","refresh_token":"1//0g","expiry":"2023-11-14T23:13:20Z"}''
       @ [CHR 0x0A]\<close>

definition sample_codec :: json_codec where
  "sample_codec =
     \<lparr>json_encode = (\<lambda>t. if t = sample_token then Inr sample_json else Inl ''json: unsupported value''),
      json_decode = (\<lambda>b. if b = sample_json then Inr sample_token else Inl ''unexpected end of JSON input'')\<rparr>"

definition sample_fs :: filesys where
  "sample_fs =
     \<lparr>files = Map.empty,
      open_err = (\<lambda>p. ''open '' @ p @ '': no such file or directory''),
      create_err = (\<lambda>p. if p = ''/nonexistent/token.json''
                         then Some (''open '' @ p @ '': no such file or directory'') else None),
      write_err = (\<lambda>p. None)\<rparr>"

definition cached_fs :: filesys where
  "cached_fs = sample_fs\<lparr>files := [''token.json'' \<mapsto> sample_json]\<rparr>"

definition sample_config :: oauth_config where
  "sample_config = \<lparr>ClientID = ''id.apps.googleusercontent.com'', ClientSecret = ''secret'', RedirectURL = ''http://localhost''\<rparr>"

definition sample_world :: world where
  "sample_world =
     \<lparr>getenv = env_of [(''GOOGLE_CLIENT_SECRETS'', ''client.json''), (''OAUTH_USE_CALLBACK'', ''true'')],
      unix_now = 1700000000,
      scan = (\<lambda>n. Inl ''unexpected EOF''),
      auth_code_url = (\<lambda>c st. ''https://accounts.google.com/o/oauth2/auth?state='' @ st),
      exchange = (\<lambda>c code. if code = ''4/abc123'' then Inr sample_token else Inl ''oauth2: cannot fetch token''),
      codec = sample_codec,
      arrivals = [(2000000000, Request [(''state'', ''state-1700000000''), (''code'', ''4/abc123'')])],
      select_rand = 0\<rparr>"

section \<open>Properties of the resolver\<close>

text \<open>
  C8. The resolver ends the process with the configuration error exactly when both
  configured location strings are empty. When both are non-empty it logs the notice and
  selects the service account. Its trace never contains a file-system access: only the
  emptiness of the two strings is inspected.
\<close>

theorem loadGoogleCredentials_resolution:
  "((\<exists>tr msg. loadGoogleCredentials env = (tr, Fatal msg)) \<longleftrightarrow>
      (env ''GOOGLE_APPLICATION_CREDENTIALS'' = [] \<and> env ''GOOGLE_CLIENT_SECRETS'' = []))
   \<and> (env ''GOOGLE_APPLICATION_CREDENTIALS'' = [] \<and> env ''GOOGLE_CLIENT_SECRETS'' = [] \<longrightarrow>
        loadGoogleCredentials env = ([], Fatal no_source_message))
   \<and> (env ''GOOGLE_APPLICATION_CREDENTIALS'' \<noteq> [] \<and> env ''GOOGLE_CLIENT_SECRETS'' \<noteq> [] \<longrightarrow>
        loadGoogleCredentials env =
          ([LogPrintln both_sources_notice],
           Done \<lparr>CredentialsPath = env ''GOOGLE_APPLICATION_CREDENTIALS'',
                 ClientSecretsPath = env ''GOOGLE_CLIENT_SECRETS'',
                 UseServiceAccount = True\<rparr>))
   \<and> (\<forall>ev \<in> set (fst (loadGoogleCredentials env)). \<not> file_access ev)"
  by (simp add: loadGoogleCredentials_def Let_def)

theorem loadGoogleCredentials_resolution_witness:
  "loadGoogleCredentials (env_of []) = ([], Fatal no_source_message)
   \<and> loadGoogleCredentials
        (env_of [(''GOOGLE_APPLICATION_CREDENTIALS'', ''sa.json''), (''GOOGLE_CLIENT_SECRETS'', ''client.json'')]) =
       ([LogPrintln both_sources_notice],
        Done \<lparr>CredentialsPath = ''sa.json'', ClientSecretsPath = ''client.json'', UseServiceAccount = True\<rparr>)"
  using loadGoogleCredentials_resolution [of "env_of []"]
    loadGoogleCredentials_resolution
      [of "env_of [(''GOOGLE_APPLICATION_CREDENTIALS'', ''sa.json''), (''GOOGLE_CLIENT_SECRETS'', ''client.json'')]"]
  by (simp add: env_of_def)

section \<open>Auxiliary facts\<close>

lemma dec_nat_digit: "n < 10 \<Longrightarrow> dec_nat n = [''0123456789'' ! n]"
  by (simp add: dec_nat.simps)

lemma dec_nat_step: "10 \<le> n \<Longrightarrow> dec_nat n = dec_nat (n div 10) @ [''0123456789'' ! (n mod 10)]"
  by (subst dec_nat.simps) simp

lemma sample_state: "callback_state (unix_now sample_world) = ''state-1700000000''"
  by (simp add: sample_world_def callback_state_def fmt_d_def dec_nat_digit dec_nat_step)

lemma select_ready_nonempty: "select_ready c e \<noteq> []"
  by (auto simp: select_ready_def select_cases_def Let_def min_def split: option.splits)

lemma select_wait_ready: "select_wait rand c e \<in> set (select_ready c e)"
  unfolding select_wait_def Let_def
  by (rule nth_mem) (simp add: select_ready_nonempty)

lemma select_ready_cases:
  assumes "(t, ev) \<in> set (select_ready c e)"
  shows "t \<le> wait_timeout"
    and "ev = TimerFired \<Longrightarrow> t = wait_timeout"
    and "ev = CodeReceived code \<Longrightarrow> c = Some (t, code)"
    and "ev = ErrorReceived err \<Longrightarrow> e = Some (t, err)"
    and "c = Some (tc, code') \<Longrightarrow> t \<le> tc"
    and "e = Some (te, err') \<Longrightarrow> t \<le> te"
  using assms
  by (auto simp: select_ready_def select_cases_def Let_def min_def split: option.splits if_splits)

lemma select_ready_idle:
  "(t, ev) \<in> set (select_ready None None) \<Longrightarrow> t = wait_timeout \<and> ev = TimerFired"
  by (auto simp: select_ready_def select_cases_def Let_def)

lemma callback_trace:
  assumes "callback_select w = (t, ev)"
  shows "fst (getTokenFromWebWithCallback w config) =
           callback_setup w config @ [SelectResolved t ev, Shutdown shutdown_grace] @
             (case ev of CodeReceived code \<Rightarrow> [Exchange code] | _ \<Rightarrow> [])"
    and "snd (snd (getTokenFromWebWithCallback w config)) =
           (case ev of
              CodeReceived code \<Rightarrow>
                (case exchange w (config\<lparr>RedirectURL := callback_url (callback_port (getenv w))\<rparr>) code of
                   Inl err \<Rightarrow> Fatal (exchange_failed_message err) | Inr tok \<Rightarrow> Done tok)
            | ErrorReceived err \<Rightarrow> Fatal (callback_error_message err)
            | TimerFired \<Rightarrow> Fatal timed_out_message)"
    and "fst (snd (getTokenFromWebWithCallback w config)) =
           config\<lparr>RedirectURL := callback_url (callback_port (getenv w))\<rparr>"
  using assms
  by (simp_all add: getTokenFromWebWithCallback_def Let_def exchange_code_def
        split: select_event.splits sum.splits)

lemma callback_setup_quiet: "filter is_shutdown (callback_setup w config) = []"
  by (simp add: callback_setup_def Let_def)

lemma messages_distinct:
  "timed_out_message \<noteq> callback_error_message err"
  "timed_out_message \<noteq> exchange_failed_message err"
  by (simp_all add: timed_out_message_def callback_error_message_def exchange_failed_message_def cross_mark_def)

lemma durations: "wait_timeout = 5 * 60 * 1000000000" "shutdown_grace = 5 * 1000000000"
  by (simp_all add: wait_timeout_def shutdown_grace_def Minute_def Second_def)

lemma first_code_signals:
  "first_code (signals st inc) = Some (t, c) \<Longrightarrow>
     \<exists>q. (t, Request q) \<in> set inc \<and> query_get q ''state'' = st \<and> query_get q ''code'' = c \<and> c \<noteq> []"
proof (induction st inc rule: signals.induct)
  case (1 state)
  then show ?case by simp
next
  case (2 state t' err rest)
  then show ?case by simp
next
  case (3 state t' q rest)
  show ?case
  proof (cases "snd (handler state q)")
    case (CodeSignal c')
    with 3 have "t' = t" "c' = c" by simp_all
    with CodeSignal show ?thesis
      by (auto simp: handler_def Let_def split: if_splits)
  next
    case (ErrorSignal e)
    with 3 show ?thesis by auto
  qed
qed

lemma sample_select: "callback_select sample_world = (2000000000, CodeReceived ''4/abc123'')"
  unfolding callback_select_def sent_signals_def sample_state
  by (simp add: sample_world_def handler_def query_get_def Let_def select_wait_def select_ready_def
        select_cases_def wait_timeout_def Minute_def Second_def)

lemma idle_select: "callback_select (sample_world\<lparr>arrivals := []\<rparr>) = (wait_timeout, TimerFired)"
  by (simp add: callback_select_def sent_signals_def select_wait_def select_ready_def
        select_cases_def Let_def)

section \<open>The callback wait\<close>

text \<open>
  C6. In the callback flow the select statement resolves no later than five minutes
  (300 s, in nanoseconds) after it is entered, with the case that became ready first,
  and with the timer when nothing was sent on either channel. Whatever it resolves with,
  the trace continues with exactly one \<open>Shutdown\<close>, directly after the resolution and
  bounded by five seconds, and only then with the exchange, if any. A fired timer ends
  the process with the timed-out message, which differs from the message of every
  callback error and of every failed exchange.
\<close>

theorem callback_wait_bounded_shutdown_once:
  "\<exists>t ev. callback_select w = (t, ev)
     \<and> fst (getTokenFromWebWithCallback w config) =
         callback_setup w config @ [SelectResolved t ev, Shutdown shutdown_grace] @
           (case ev of CodeReceived code \<Rightarrow> [Exchange code] | _ \<Rightarrow> [])
     \<and> filter is_shutdown (fst (getTokenFromWebWithCallback w config)) = [Shutdown shutdown_grace]
     \<and> t \<le> wait_timeout \<and> wait_timeout = 5 * 60 * 1000000000 \<and> shutdown_grace = 5 * 1000000000
     \<and> (\<forall>tc code. first_code (sent_signals w) = Some (tc, code) \<longrightarrow> t \<le> tc)
     \<and> (\<forall>te err. first_error (sent_signals w) = Some (te, err) \<longrightarrow> t \<le> te)
     \<and> (first_code (sent_signals w) = None \<and> first_error (sent_signals w) = None \<longrightarrow> ev = TimerFired)
     \<and> (ev = TimerFired \<longrightarrow>
          t = wait_timeout \<and> snd (snd (getTokenFromWebWithCallback w config)) = Fatal timed_out_message)
     \<and> (\<forall>err. ev = ErrorReceived err \<longrightarrow>
          snd (snd (getTokenFromWebWithCallback w config)) = Fatal (callback_error_message err))
     \<and> (\<forall>err. timed_out_message \<noteq> callback_error_message err
             \<and> timed_out_message \<noteq> exchange_failed_message err)"
proof -
  obtain t ev where sel: "callback_select w = (t, ev)"
    by (cases "callback_select w")
  have ready: "(t, ev) \<in> set (select_ready (first_code (sent_signals w)) (first_error (sent_signals w)))"
    using select_wait_ready [of "select_rand w" "first_code (sent_signals w)" "first_error (sent_signals w)"] sel
    by (simp add: callback_select_def)
  note tr = callback_trace(1) [OF sel, of config]
  note res = callback_trace(2) [OF sel, of config]
  have once: "filter is_shutdown (fst (getTokenFromWebWithCallback w config)) = [Shutdown shutdown_grace]"
    by (simp add: tr callback_setup_quiet split: select_event.splits)
  have bound: "t \<le> wait_timeout"
    using select_ready_cases(1) [OF ready] .
  have c: "\<forall>tc code. first_code (sent_signals w) = Some (tc, code) \<longrightarrow> t \<le> tc"
    using select_ready_cases(5) [OF ready] by blast
  have e: "\<forall>te err. first_error (sent_signals w) = Some (te, err) \<longrightarrow> t \<le> te"
    using select_ready_cases(6) [OF ready] by blast
  have idle: "first_code (sent_signals w) = None \<and> first_error (sent_signals w) = None \<longrightarrow> ev = TimerFired"
    using ready select_ready_idle by auto
  have timer: "ev = TimerFired \<longrightarrow>
      t = wait_timeout \<and> snd (snd (getTokenFromWebWithCallback w config)) = Fatal timed_out_message"
    using select_ready_cases(2) [OF ready] by (simp add: res)
  have err: "\<forall>err. ev = ErrorReceived err \<longrightarrow>
      snd (snd (getTokenFromWebWithCallback w config)) = Fatal (callback_error_message err)"
    by (simp add: res)
  show ?thesis
    using sel tr once bound durations c e idle timer err messages_distinct by blast
qed

theorem callback_wait_bounded_shutdown_once_witness:
  "fst (getTokenFromWebWithCallback (sample_world\<lparr>arrivals := []\<rparr>) sample_config) =
     callback_setup (sample_world\<lparr>arrivals := []\<rparr>) sample_config @
       [SelectResolved 300000000000 TimerFired, Shutdown 5000000000]
   \<and> snd (snd (getTokenFromWebWithCallback (sample_world\<lparr>arrivals := []\<rparr>) sample_config)) =
       Fatal timed_out_message"
  using callback_wait_bounded_shutdown_once [of "sample_world\<lparr>arrivals := []\<rparr>" sample_config] idle_select
  by (auto simp: wait_timeout_def shutdown_grace_def Minute_def Second_def)

section \<open>The callback handler\<close>

text \<open>
  C3. A callback request whose \<open>state\<close> parameter differs from the attempt's state in
  any way makes the handler send the error \<open>invalid state parameter\<close> on the error
  channel and write nothing; it never sends a code, so nothing reaches the code channel
  from it, and every code the flow exchanges comes from another request, one whose
  state matched and whose code was not empty.
\<close>

theorem handler_state_mismatch:
  assumes "query_get q ''state'' \<noteq> callback_state (unix_now w)"
  shows "handler (callback_state (unix_now w)) q = (None, ErrorSignal ''invalid state parameter'')
     \<and> (\<forall>code. snd (handler (callback_state (unix_now w)) q) \<noteq> CodeSignal code)
     \<and> (\<forall>t. first_code (signals (callback_state (unix_now w)) [(t, Request q)]) = None)
     \<and> (\<forall>code. Exchange code \<in> set (fst (getTokenFromWebWithCallback w config)) \<longrightarrow>
           (\<exists>t q'. (t, Request q') \<in> set (arrivals w) \<and> q' \<noteq> q
              \<and> query_get q' ''state'' = callback_state (unix_now w)
              \<and> query_get q' ''code'' = code \<and> code \<noteq> []))"
proof -
  have h: "handler (callback_state (unix_now w)) q = (None, ErrorSignal ''invalid state parameter'')"
    using assms by (simp add: handler_def)
  have ex: "\<exists>t q'. (t, Request q') \<in> set (arrivals w) \<and> q' \<noteq> q
              \<and> query_get q' ''state'' = callback_state (unix_now w)
              \<and> query_get q' ''code'' = code \<and> code \<noteq> []"
    if "Exchange code \<in> set (fst (getTokenFromWebWithCallback w config))" for code
  proof -
    obtain t ev where sel: "callback_select w = (t, ev)"
      by (cases "callback_select w")
    have ready: "(t, ev) \<in> set (select_ready (first_code (sent_signals w)) (first_error (sent_signals w)))"
      using select_wait_ready [of "select_rand w" "first_code (sent_signals w)" "first_error (sent_signals w)"] sel
      by (simp add: callback_select_def)
    from that have "ev = CodeReceived code"
      by (auto simp: callback_trace(1) [OF sel] callback_setup_def Let_def split: select_event.splits)
    then have "first_code (sent_signals w) = Some (t, code)"
      using select_ready_cases(3) [OF ready] by simp
    then obtain q' where q': "(t, Request q') \<in> set (arrivals w)"
        "query_get q' ''state'' = callback_state (unix_now w)" "query_get q' ''code'' = code" "code \<noteq> []"
      using first_code_signals unfolding sent_signals_def by blast
    with assms have "q' \<noteq> q" by auto
    with q' show ?thesis by blast
  qed
  show ?thesis using h ex by simp
qed

theorem handler_state_mismatch_witness:
  "handler (callback_state (unix_now sample_world)) [(''state'', ''State-1700000000''), (''code'', ''4/abc123'')] =
     (None, ErrorSignal ''invalid state parameter'')
   \<and> handler (callback_state (unix_now sample_world)) [(''state'', ''state-1700000000 ''), (''code'', ''4/abc123'')] =
     (None, ErrorSignal ''invalid state parameter'')"
  using handler_state_mismatch
      [of "[(''state'', ''State-1700000000''), (''code'', ''4/abc123'')]" sample_world sample_config]
    handler_state_mismatch
      [of "[(''state'', ''state-1700000000 ''), (''code'', ''4/abc123'')]" sample_world sample_config]
  by (simp add: sample_state query_get_def)

section \<open>The callback listener\<close>

text \<open>
  C9. The server's address is \<open>:8080\<close> when no port is configured: the host part is
  empty, so the listener is not bound to \<open>127.0.0.1\<close>.
\<close>

theorem callback_listener_counterexample:
  "ListenAndServe '':8080'' \<in> set (fst (getTokenFromWebWithCallback sample_world sample_config))
   \<and> ListenAndServe ''127.0.0.1:8080'' \<notin> set (fst (getTokenFromWebWithCallback sample_world sample_config))"
  by (simp add: callback_trace(1) [OF sample_select] callback_setup_def Let_def callback_port_def
        server_addr_def)
    (simp add: sample_world_def env_of_def)

text \<open>
  C9, as amended. The flow serves on the address \<open>:port\<close> with an empty host part, where the
  port is the configured one or 8080; the only route it registers is
  \<open>/oauth/callback\<close>; and a request with the attempt's state and a non-empty code is
  answered with status 200, content type \<open>text/html\<close> and the fixed confirmation page,
  and its code is sent on the code channel.
\<close>

theorem callback_listener:
  "(\<forall>addr. ListenAndServe addr \<in> set (fst (getTokenFromWebWithCallback w config)) \<longleftrightarrow>
       addr = '':'' @ (if getenv w ''OAUTH_CALLBACK_PORT'' = [] then ''8080''
                       else getenv w ''OAUTH_CALLBACK_PORT''))
   \<and> (\<forall>route. HandleFunc route \<in> set (fst (getTokenFromWebWithCallback w config)) \<longleftrightarrow>
       route = ''/oauth/callback'')
   \<and> (query_get q ''state'' = callback_state (unix_now w) \<and> query_get q ''code'' \<noteq> [] \<longrightarrow>
       handler (callback_state (unix_now w)) q =
         (Some \<lparr>status = 200, content_type = ''text/html'', body = success_page\<rparr>,
          CodeSignal (query_get q ''code'')))"
proof -
  obtain t ev where sel: "callback_select w = (t, ev)"
    by (cases "callback_select w")
  show ?thesis
    by (auto simp: callback_trace(1) [OF sel] callback_setup_def Let_def callback_port_def
          server_addr_def callback_route_def handler_def split: select_event.splits)
qed

theorem callback_listener_witness:
  "handler (callback_state (unix_now sample_world)) [(''state'', ''state-1700000000''), (''code'', ''4/abc123'')] =
     (Some \<lparr>status = 200, content_type = ''text/html'', body = success_page\<rparr>, CodeSignal ''4/abc123'')
   \<and> ListenAndServe '':9090'' \<in>
       set (fst (getTokenFromWebWithCallback
         (sample_world\<lparr>getenv := env_of [(''OAUTH_CALLBACK_PORT'', ''9090'')]\<rparr>) sample_config))"
  using callback_listener
      [of sample_world sample_config "[(''state'', ''state-1700000000''), (''code'', ''4/abc123'')]"]
    callback_listener
      [of "sample_world\<lparr>getenv := env_of [(''OAUTH_CALLBACK_PORT'', ''9090'')]\<rparr>" sample_config "[]"]
  by (simp add: sample_state query_get_def env_of_def)

section \<open>The state of an attempt\<close>

text \<open>
  C5. The state is the text \<open>state-\<close> followed by the clock's Unix time in seconds.
  Two attempts that start within the same second, here on different ports, generate the
  same state and show it in their authorization URLs.
\<close>

theorem callback_state_repeats_within_second:
  "callback_state (unix_now sample_world) = ''state-1700000000''
   \<and> callback_state (unix_now (sample_world\<lparr>getenv := env_of [(''OAUTH_CALLBACK_PORT'', ''9090'')],
                                              arrivals := []\<rparr>)) = ''state-1700000000''
   \<and> PrintAuthURL ''https://accounts.google.com/o/oauth2/auth?state=state-1700000000''
       \<in> set (fst (getTokenFromWebWithCallback sample_world sample_config))
   \<and> PrintAuthURL ''https://accounts.google.com/o/oauth2/auth?state=state-1700000000''
       \<in> set (fst (getTokenFromWebWithCallback
           (sample_world\<lparr>getenv := env_of [(''OAUTH_CALLBACK_PORT'', ''9090'')], arrivals := []\<rparr>) sample_config))"
proof -
  obtain t ev where sel:
    "callback_select (sample_world\<lparr>getenv := env_of [(''OAUTH_CALLBACK_PORT'', ''9090'')], arrivals := []\<rparr>) = (t, ev)"
    by (cases "callback_select (sample_world\<lparr>getenv := env_of [(''OAUTH_CALLBACK_PORT'', ''9090'')], arrivals := []\<rparr>)")
  have s: "callback_state 1700000000 = ''state-1700000000''"
    using sample_state by (simp add: sample_world_def)
  show ?thesis
    by (simp add: callback_trace(1) [OF sample_select] callback_trace(1) [OF sel] callback_setup_def Let_def)
      (simp add: sample_world_def s)
qed

section \<open>Facts about the client construction\<close>

lemma confirm_code_trace:
  "confirm_code w code = (tr, r) \<Longrightarrow> tr = [] \<or> tr = [Scan]"
  by (auto simp: confirm_code_def split: if_splits sum.splits)

lemma getTokenFromWeb_trace:
  "\<exists>rest. fst (getTokenFromWeb w config) = PrintAuthURL (auth_code_url w config ''state-token'') # rest
      \<and> (\<forall>ev \<in> set rest. interactive ev)"
proof (cases "scan w 0")
  case (Inl err)
  then show ?thesis by (simp add: getTokenFromWeb_def)
next
  case (Inr input)
  obtain tr1 r1 where c: "confirm_code w (TrimSpace input) = (tr1, r1)"
    by (cases "confirm_code w (TrimSpace input)")
  from confirm_code_trace [OF c] show ?thesis
    using Inr c
    by (auto simp: getTokenFromWeb_def Let_def exchange_code_def split: sum.splits outcome.splits)
qed

lemma getTokenFromWeb_done:
  assumes "getTokenFromWeb w config = (tr, Done tok)"
  shows "\<exists>pre code. tr = pre @ [Exchange code] \<and> exchange w config code = Inr tok"
proof (cases "scan w 0")
  case (Inl err)
  with assms show ?thesis by (simp add: getTokenFromWeb_def)
next
  case (Inr input)
  obtain tr1 r1 where c: "confirm_code w (TrimSpace input) = (tr1, r1)"
    by (cases "confirm_code w (TrimSpace input)")
  from assms Inr c show ?thesis
    by (auto simp: getTokenFromWeb_def Let_def exchange_code_def
          split: sum.splits outcome.splits if_splits)
qed

lemma callback_done:
  assumes "getTokenFromWebWithCallback w config = (tr, config1, Done tok)"
  shows "\<exists>pre code. tr = pre @ [Exchange code] \<and> exchange w config1 code = Inr tok"
proof -
  obtain t ev where sel: "callback_select w = (t, ev)"
    by (cases "callback_select w")
  from assms have "fst (getTokenFromWebWithCallback w config) = tr"
    "fst (snd (getTokenFromWebWithCallback w config)) = config1"
    "snd (snd (getTokenFromWebWithCallback w config)) = Done tok"
    by simp_all
  then show ?thesis
    unfolding callback_trace [OF sel]
    by (cases ev) (auto split: sum.splits)
qed

lemma callback_interactive:
  "\<exists>rest. fst (getTokenFromWebWithCallback w config) = HandleFunc callback_route # rest
      \<and> (\<forall>ev \<in> set rest. interactive ev)"
proof -
  obtain t ev where sel: "callback_select w = (t, ev)"
    by (cases "callback_select w")
  show ?thesis
    unfolding callback_trace(1) [OF sel]
    by (cases ev) (simp_all add: callback_setup_def Let_def)
qed

lemma authorize_interactive:
  "\<exists>ev rest. fst (authorize w config) = ev # rest \<and> (\<forall>ev \<in> set (ev # rest). interactive ev)"
proof (cases "getenv w ''OAUTH_USE_CALLBACK'' = ''true'' \<or> getenv w ''OAUTH_USE_CALLBACK'' = ''1''")
  case True
  then have "authorize w config = getTokenFromWebWithCallback w config"
    by (simp add: authorize_def)
  with callback_interactive [of w config] show ?thesis by auto
next
  case False
  then have "fst (authorize w config) = fst (getTokenFromWeb w config)"
    by (simp add: authorize_def split: prod.splits)
  with getTokenFromWeb_trace [of w config] show ?thesis by auto
qed

lemma authorize_done:
  assumes "authorize w config = (tr, config1, Done tok)"
  shows "\<exists>pre code. tr = pre @ [Exchange code] \<and> exchange w config1 code = Inr tok"
proof (cases "getenv w ''OAUTH_USE_CALLBACK'' = ''true'' \<or> getenv w ''OAUTH_USE_CALLBACK'' = ''1''")
  case True
  with assms have "getTokenFromWebWithCallback w config = (tr, config1, Done tok)"
    by (simp add: authorize_def)
  then show ?thesis by (rule callback_done)
next
  case False
  with assms have "getTokenFromWeb w config = (tr, Done tok)" "config1 = config"
    by (auto simp: authorize_def split: prod.splits)
  with getTokenFromWeb_done show ?thesis by blast
qed

lemma saveToken_done:
  "saveToken cd fs p tok = (tr, fs', Done u) \<longleftrightarrow>
     create_err fs p = None \<and> write_err fs p = None \<and>
     (\<exists>bytes. json_encode cd tok = Inr bytes \<and> tr = [OsOpenFile p, FileWrite p bytes]
        \<and> fs' = fs\<lparr>files := (files fs)(p \<mapsto> bytes)\<rparr>)"
  by (auto simp: saveToken_def Let_def split: option.splits sum.splits)

lemma saveToken_trace:
  "\<forall>ev \<in> set (fst (saveToken cd fs p tok)). \<not> interactive ev \<and> \<not> is_client ev"
  by (auto simp: saveToken_def Let_def split: option.splits sum.splits)

lemma tokenFromFile_trace: "fst (tokenFromFile cd fs p) = [OsOpen p]"
  by (simp add: tokenFromFile_def split: option.splits)

lemma tokenFromFile_fails:
  "isl (snd (tokenFromFile cd fs p)) \<longleftrightarrow>
     files fs p = None \<or> (\<exists>bytes. files fs p = Some bytes \<and> isl (json_decode cd bytes))"
  by (auto simp: tokenFromFile_def split: option.splits)

lemma getHTTPClient_hit:
  assumes "snd (tokenFromFile (codec w) fs (token_path (getenv w))) = Inr tok"
  shows "getHTTPClient w fs config =
           ([OsOpen (token_path (getenv w)), ConfigClient tok], fs, Done (Client config tok))"
  using assms tokenFromFile_trace [of "codec w" fs "token_path (getenv w)"]
  by (cases "tokenFromFile (codec w) fs (token_path (getenv w))") (simp add: getHTTPClient_def Let_def)

lemma getHTTPClient_miss:
  assumes "isl (snd (tokenFromFile (codec w) fs (token_path (getenv w))))"
  shows "getHTTPClient w fs config =
           (case authorize w config of
              (tr1, config1, Fatal msg) \<Rightarrow> (OsOpen (token_path (getenv w)) # tr1, fs, Fatal msg)
            | (tr1, config1, Done tok) \<Rightarrow>
                (case saveToken (codec w) fs (token_path (getenv w)) tok of
                   (tr2, fs2, Fatal msg) \<Rightarrow> (OsOpen (token_path (getenv w)) # tr1 @ tr2, fs2, Fatal msg)
                 | (tr2, fs2, Done _) \<Rightarrow>
                     (OsOpen (token_path (getenv w)) # tr1 @ tr2 @ [ConfigClient tok], fs2,
                      Done (Client config1 tok))))"
  using assms tokenFromFile_trace [of "codec w" fs "token_path (getenv w)"]
  by (cases "tokenFromFile (codec w) fs (token_path (getenv w))")
    (auto simp: getHTTPClient_def Let_def isl_def split: prod.splits outcome.splits)

lemma getHTTPClient_miss_trace:
  assumes "isl (snd (tokenFromFile (codec w) fs (token_path (getenv w))))"
  shows "\<exists>rest. fst (getHTTPClient w fs config) =
           OsOpen (token_path (getenv w)) # fst (authorize w config) @ rest"
  unfolding getHTTPClient_miss [OF assms]
  by (auto split: prod.splits outcome.splits)

lemma interactive_not_client: "interactive ev \<Longrightarrow> \<not> is_client ev"
  by (cases ev) simp_all

lemma sample_fields:
  "getenv sample_world = env_of [(''GOOGLE_CLIENT_SECRETS'', ''client.json''), (''OAUTH_USE_CALLBACK'', ''true'')]"
  "unix_now sample_world = 1700000000"
  "auth_code_url sample_world = (\<lambda>c st. ''https://accounts.google.com/o/oauth2/auth?state='' @ st)"
  "exchange sample_world = (\<lambda>c code. if code = ''4/abc123'' then Inr sample_token else Inl ''oauth2: cannot fetch token'')"
  "codec sample_world = sample_codec"
  by (simp_all add: sample_world_def)

lemma sample_token_path: "token_path (getenv sample_world) = ''token.json''"
  by (simp add: sample_fields token_path_def env_of_def)

lemma sample_load:
  "tokenFromFile sample_codec sample_fs ''token.json'' =
     ([OsOpen ''token.json''], Inl ''open token.json: no such file or directory'')"
  by (simp add: tokenFromFile_def sample_fs_def)

lemma cached_load:
  "tokenFromFile sample_codec cached_fs ''token.json'' = ([OsOpen ''token.json''], Inr sample_token)"
  by (simp add: tokenFromFile_def cached_fs_def sample_fs_def sample_codec_def)

lemma sample_authorize:
  "authorize sample_world sample_config =
     ([HandleFunc ''/oauth/callback'', ListenAndServe '':8080'', Sleep 1000000000,
       PrintAuthURL ''https://accounts.google.com/o/oauth2/auth?state=state-1700000000'',
       SelectResolved 2000000000 (CodeReceived ''4/abc123''), Shutdown 5000000000, Exchange ''4/abc123''],
      sample_config\<lparr>RedirectURL := ''http://localhost:8080/oauth/callback''\<rparr>,
      Done sample_token)"
proof -
  have s: "callback_state 1700000000 = ''state-1700000000''"
    using sample_state by (simp add: sample_fields)
  show ?thesis
    by (simp add: authorize_def getTokenFromWebWithCallback_def sample_select Let_def
          exchange_code_def callback_setup_def sample_fields env_of_def callback_port_def
          callback_url_def callback_route_def server_addr_def s shutdown_grace_def Second_def)
qed

lemma sample_save:
  "saveToken sample_codec sample_fs ''token.json'' sample_token =
     ([OsOpenFile ''token.json'', FileWrite ''token.json'' sample_json],
      sample_fs\<lparr>files := (files sample_fs)(''token.json'' \<mapsto> sample_json)\<rparr>, Done ())"
  by (simp add: saveToken_def sample_codec_def sample_fs_def Let_def)

lemma sample_run:
  "getHTTPClient sample_world sample_fs sample_config =
     ([OsOpen ''token.json'',
       HandleFunc ''/oauth/callback'', ListenAndServe '':8080'', Sleep 1000000000,
       PrintAuthURL ''https://accounts.google.com/o/oauth2/auth?state=state-1700000000'',
       SelectResolved 2000000000 (CodeReceived ''4/abc123''), Shutdown 5000000000, Exchange ''4/abc123'',
       OsOpenFile ''token.json'', FileWrite ''token.json'' sample_json,
       ConfigClient sample_token],
      sample_fs\<lparr>files := (files sample_fs)(''token.json'' \<mapsto> sample_json)\<rparr>,
      Done (Client (sample_config\<lparr>RedirectURL := ''http://localhost:8080/oauth/callback''\<rparr>) sample_token))"
  by (simp add: getHTTPClient_def Let_def sample_token_path sample_fields(5) sample_load
        sample_authorize sample_save)

section \<open>The cached token and the interactive flow\<close>

text \<open>
  C2. Building the client performs an interactive effect (showing the authorization
  URL, reading the terminal, serving the callback, exchanging a code) if and only if
  loading the cached token fails, and loading fails exactly when the token file cannot
  be opened or its bytes do not decode. A failed load does not end the process: the
  run continues with the authorization flow. For a token that loads, the run consists
  of opening the file and building the client from that token.
\<close>

theorem getHTTPClient_interactive_iff_load_fails:
  "((\<exists>ev \<in> set (fst (getHTTPClient w fs config)). interactive ev) \<longleftrightarrow>
      isl (snd (tokenFromFile (codec w) fs (token_path (getenv w)))))
   \<and> (isl (snd (tokenFromFile (codec w) fs (token_path (getenv w)))) \<longleftrightarrow>
        files fs (token_path (getenv w)) = None
        \<or> (\<exists>bytes. files fs (token_path (getenv w)) = Some bytes \<and> isl (json_decode (codec w) bytes)))
   \<and> (isl (snd (tokenFromFile (codec w) fs (token_path (getenv w)))) \<longrightarrow>
        (\<exists>rest. fst (getHTTPClient w fs config) =
           OsOpen (token_path (getenv w)) # fst (authorize w config) @ rest))
   \<and> (\<forall>tok. snd (tokenFromFile (codec w) fs (token_path (getenv w))) = Inr tok \<longrightarrow>
        getHTTPClient w fs config =
          ([OsOpen (token_path (getenv w)), ConfigClient tok], fs, Done (Client config tok)))"
proof -
  let ?load = "snd (tokenFromFile (codec w) fs (token_path (getenv w)))"
  have miss: "\<exists>ev \<in> set (fst (getHTTPClient w fs config)). interactive ev" if "isl ?load"
    using getHTTPClient_miss_trace [OF that, of config] authorize_interactive [of w config]
    by auto
  have hit: "\<not> (\<exists>ev \<in> set (fst (getHTTPClient w fs config)). interactive ev)" if "\<not> isl ?load"
  proof -
    from that obtain tok where "?load = Inr tok"
      by (cases ?load) simp_all
    from getHTTPClient_hit [OF this, of config] show ?thesis by simp
  qed
  show ?thesis
    using miss hit tokenFromFile_fails [of "codec w" fs "token_path (getenv w)"]
      getHTTPClient_miss_trace [of w fs config] getHTTPClient_hit [of w fs _ config]
    by blast
qed

theorem getHTTPClient_interactive_iff_load_fails_witness:
  "getHTTPClient sample_world cached_fs sample_config =
     ([OsOpen ''token.json'', ConfigClient sample_token], cached_fs, Done (Client sample_config sample_token))
   \<and> (\<exists>ev \<in> set (fst (getHTTPClient sample_world sample_fs sample_config)). interactive ev)"
  using getHTTPClient_interactive_iff_load_fails [of sample_world cached_fs sample_config]
    getHTTPClient_interactive_iff_load_fails [of sample_world sample_fs sample_config]
  by (simp add: sample_token_path sample_fields(5) cached_load sample_load)

text \<open>
  C10. Whenever the token file opens and decodes, the client is built from the decoded
  token without any interactive effect. This holds for every decoded token, whatever
  its expiry, and the run is the same for every reading of the clock: the load path
  never inspects the expiry.
\<close>

theorem getHTTPClient_ignores_expiry:
  assumes "files fs (token_path (getenv w)) = Some bytes"
    and "json_decode (codec w) bytes = Inr tok"
  shows "getHTTPClient w fs config =
           ([OsOpen (token_path (getenv w)), ConfigClient tok], fs, Done (Client config tok))
     \<and> (\<forall>ev \<in> set (fst (getHTTPClient w fs config)). \<not> interactive ev)
     \<and> (\<forall>now. getHTTPClient (w\<lparr>unix_now := now\<rparr>) fs config = getHTTPClient w fs config)"
proof -
  have load: "snd (tokenFromFile (codec w) fs (token_path (getenv w))) = Inr tok"
    using assms by (simp add: tokenFromFile_def)
  have moved: "getHTTPClient (w\<lparr>unix_now := now\<rparr>) fs config =
      ([OsOpen (token_path (getenv w)), ConfigClient tok], fs, Done (Client config tok))" for now
    using getHTTPClient_hit [of "w\<lparr>unix_now := now\<rparr>" fs tok config] load by simp
  from moved getHTTPClient_hit [OF load, of config]
  show ?thesis by simp
qed

theorem getHTTPClient_ignores_expiry_witness:
  "Expiry sample_token < unix_now (sample_world\<lparr>unix_now := 1800000000\<rparr>)
   \<and> getHTTPClient (sample_world\<lparr>unix_now := 1800000000\<rparr>) cached_fs sample_config =
       ([OsOpen ''token.json'', ConfigClient sample_token], cached_fs,
        Done (Client sample_config sample_token))"
proof -
  have f: "files cached_fs (token_path (getenv (sample_world\<lparr>unix_now := 1800000000\<rparr>))) = Some sample_json"
    by (simp add: sample_token_path cached_fs_def)
  have d: "json_decode (codec (sample_world\<lparr>unix_now := 1800000000\<rparr>)) sample_json = Inr sample_token"
    by (simp add: sample_fields(5) sample_codec_def)
  show ?thesis
    using getHTTPClient_ignores_expiry [OF f d, of sample_config]
    by (simp add: sample_token_path sample_token_def)
qed

section \<open>Persistence before use\<close>

text \<open>
  C7. In a run that had to obtain a fresh token, a client is built only from a token
  that was returned by a successful exchange and then written to the token file: the
  trace ends with the exchange, the opening of the token file, the write of the token's
  encoding and then the construction of the client, no client is built earlier, and the
  token file holds the encoding afterwards. This covers both the manual and the
  callback flow.
\<close>

theorem getHTTPClient_persists_before_client:
  assumes "isl (snd (tokenFromFile (codec w) fs (token_path (getenv w))))"
    and "getHTTPClient w fs config = (tr, fs', r)"
    and "ConfigClient tok \<in> set tr"
  shows "\<exists>pre code bytes config1.
           tr = pre @ [Exchange code, OsOpenFile (token_path (getenv w)),
                       FileWrite (token_path (getenv w)) bytes, ConfigClient tok]
         \<and> (\<forall>ev \<in> set pre. \<not> is_client ev)
         \<and> exchange w config1 code = Inr tok
         \<and> json_encode (codec w) tok = Inr bytes
         \<and> files fs' (token_path (getenv w)) = Some bytes
         \<and> r = Done (Client config1 tok)"
proof -
  let ?p = "token_path (getenv w)"
  obtain tr1 config1 r1 where a: "authorize w config = (tr1, config1, r1)"
    by (cases "authorize w config")
  have quiet: "\<forall>ev \<in> set tr1. \<not> is_client ev"
    using authorize_interactive [of w config] a interactive_not_client by auto
  show ?thesis
  proof (cases r1)
    case (Fatal msg)
    with assms(2) a have "tr = OsOpen ?p # tr1"
      by (simp add: getHTTPClient_miss [OF assms(1)])
    with assms(3) quiet show ?thesis by auto
  next
    case (Done tok')
    obtain tr2 fs2 r2 where s: "saveToken (codec w) fs ?p tok' = (tr2, fs2, r2)"
      by (cases "saveToken (codec w) fs ?p tok'")
    have quiet2: "\<forall>ev \<in> set tr2. \<not> is_client ev"
      using saveToken_trace [of "codec w" fs ?p tok'] s by simp
    show ?thesis
    proof (cases r2)
      case (Fatal msg)
      with assms(2) a Done s have "tr = OsOpen ?p # tr1 @ tr2"
        by (simp add: getHTTPClient_miss [OF assms(1)])
      with assms(3) quiet quiet2 show ?thesis by auto
    next
      case saved: (Done u)
      with assms(2) a Done s have run: "tr = OsOpen ?p # tr1 @ tr2 @ [ConfigClient tok']"
        "fs' = fs2" "r = Done (Client config1 tok')"
        by (simp_all add: getHTTPClient_miss [OF assms(1)])
      from assms(3) run(1) quiet quiet2 have same: "tok' = tok" by auto
      from s saved obtain bytes where b: "json_encode (codec w) tok' = Inr bytes"
          "tr2 = [OsOpenFile ?p, FileWrite ?p bytes]" "fs2 = fs\<lparr>files := (files fs)(?p \<mapsto> bytes)\<rparr>"
        using saveToken_done [of "codec w" fs ?p tok' tr2 fs2 u] by auto
      from a Done obtain pre code where e: "tr1 = pre @ [Exchange code]" "exchange w config1 code = Inr tok'"
        using authorize_done by blast
      have "tr = (OsOpen ?p # pre) @ [Exchange code, OsOpenFile ?p, FileWrite ?p bytes, ConfigClient tok]"
        using run(1) b(2) e(1) same by simp
      moreover have "\<forall>ev \<in> set (OsOpen ?p # pre). \<not> is_client ev"
        using quiet e(1) by simp
      moreover have "files fs' ?p = Some bytes"
        using run(2) b(3) by simp
      ultimately show ?thesis
        using e(2) b(1) run(3) same by blast
    qed
  qed
qed

theorem getHTTPClient_persists_before_client_witness:
  "\<exists>pre. fst (getHTTPClient sample_world sample_fs sample_config) =
     pre @ [Exchange ''4/abc123'', OsOpenFile ''token.json'', FileWrite ''token.json'' sample_json,
            ConfigClient sample_token]"
proof -
  have l: "isl (snd (tokenFromFile (codec sample_world) sample_fs (token_path (getenv sample_world))))"
    by (simp add: sample_token_path sample_fields(5) sample_load)
  obtain tr fs' r where run: "getHTTPClient sample_world sample_fs sample_config = (tr, fs', r)"
    by (cases "getHTTPClient sample_world sample_fs sample_config")
  have m: "ConfigClient sample_token \<in> set tr"
    using run [unfolded sample_run] by auto
  from getHTTPClient_persists_before_client [OF l run m]
  obtain pre code bytes config1 where
    shape: "tr = pre @ [Exchange code, OsOpenFile ''token.json'', FileWrite ''token.json'' bytes,
                       ConfigClient sample_token]"
    and ex: "exchange sample_world config1 code = Inr sample_token"
    and enc: "json_encode (codec sample_world) sample_token = Inr bytes"
    by (auto simp: sample_token_path)
  from ex have "code = ''4/abc123''"
    by (simp add: sample_fields(4) split: if_splits)
  moreover from enc have "bytes = sample_json"
    by (simp add: sample_fields(5) sample_codec_def)
  ultimately show ?thesis
    using shape run by auto
qed

section \<open>Token round trip\<close>




end
